theory Spec2Isabelle
  imports Main "HOL-Library.Word" "HOL-Library.Multiset" "HOL-Library.Product_Lexorder"
begin

unbundle bit_operations_syntax

section \<open>Data model\<close>

text \<open>
  The exporter reads three things from a Cosmos node (the validator list, the bulk
  signing infos and the staking parameters) and turns them into Prometheus gauge
  samples. Everything below is the Go of \<^verbatim>\<open>ValidatorsHandler\<close> and
  \<^verbatim>\<open>DelegatorHandler\<close>, written as HOL functions.

  Values of Go's \<^verbatim>\<open>float64\<close> are kept abstract (the type variable \<open>'f\<close>): a
  gauge that is set from \<^verbatim>\<open>strconv.ParseFloat\<close> carries whatever that function
  returned. Gauges set from an integer (\<^verbatim>\<open>float64(index + 1)\<close>, the 0/1 flags,
  the status code, the missed-blocks counter) carry the integer.
\<close>

type_synonym error = string
type_synonym bytes = "8 word list"

text \<open>\<^verbatim>\<open>stakingtypes.BondStatus\<close>, with its numeric codes.\<close>

datatype BondStatus = Unspecified | Unbonded | Unbonding | Bonded

fun BondStatus_code :: "BondStatus \<Rightarrow> nat" where
  "BondStatus_code Unspecified = 0"
| "BondStatus_code Unbonded = 1"
| "BondStatus_code Unbonding = 2"
| "BondStatus_code Bonded = 3"

text \<open>
  \<^verbatim>\<open>stakingtypes.Validator\<close>, with the fields the handler reads. \<open>Tokens\<close> and
  \<open>MinSelfDelegation\<close> are \<^verbatim>\<open>sdk.Int\<close>; \<open>DelegatorShares\<close> and \<open>Rate\<close>
  (\<^verbatim>\<open>Commission.CommissionRates.Rate\<close>) are \<^verbatim>\<open>sdk.Dec\<close>, held as the
  arbitrary-precision integer that \<^verbatim>\<open>Dec.BigInt()\<close> returns. The two methods
  whose result depends on the packed public key are fields too: \<open>UnpackInterfaces\<close> is
  the error it returns (if any), \<open>GetConsAddr\<close> is the pair \<^verbatim>\<open>(sdk.ConsAddress, error)\<close>.
\<close>

record Validator =
  OperatorAddress :: string
  Moniker :: string
  Jailed :: bool
  Status :: BondStatus
  Tokens :: int
  DelegatorShares :: int
  MinSelfDelegation :: int
  Rate :: int
  UnpackInterfaces :: "error option"
  GetConsAddr :: "bytes \<times> error option"

definition IsBonded :: "Validator \<Rightarrow> bool" where
  "IsBonded v = (Status v = Bonded)"

text \<open>\<^verbatim>\<open>slashingtypes.ValidatorSigningInfo\<close>; the counter is an \<^verbatim>\<open>int64\<close>.\<close>

record ValidatorSigningInfo =
  Address :: string
  MissedBlocksCounter :: "64 word"

text \<open>The fields of \<^verbatim>\<open>s.Config\<close> that the handlers read.\<close>

record 'f ServiceConfig =
  Limit :: "64 word"
  Denom :: string
  DenomCoefficient :: 'f

text \<open>
  The node's query service. Each call may fail. \<open>Validators\<close> and \<open>SigningInfos\<close>
  take the page request's limit and offset; a validators response may be \<^verbatim>\<open>nil\<close>
  (\<open>None\<close>) with no error.
\<close>

record Upstream =
  Validators :: "64 word \<Rightarrow> 64 word \<Rightarrow> error + Validator list option"
  SigningInfos :: "64 word \<Rightarrow> 64 word \<Rightarrow> error + ValidatorSigningInfo list"
  Params :: "error + 32 word"
  SigningInfo :: "string \<Rightarrow> error + ValidatorSigningInfo"
  ValidatorDelegations :: "string \<Rightarrow> 64 word \<Rightarrow> error + string list"

text \<open>
  Library functions the handlers call, taken as parameters: \<^verbatim>\<open>strconv.ParseFloat\<close>,
  float division, the decimal renderings \<^verbatim>\<open>Dec.String()\<close> and \<^verbatim>\<open>Int.String()\<close>,
  the bech32 rendering \<^verbatim>\<open>ConsAddress.String()\<close>, \<^verbatim>\<open>sdk.ValAddressFromBech32\<close> with
  \<^verbatim>\<open>ValAddress.String()\<close>, and \<^verbatim>\<open>sort.Slice\<close>.
\<close>

record 'f Library =
  ParseFloat :: "string \<Rightarrow> error + 'f"
  float_div :: "'f \<Rightarrow> 'f \<Rightarrow> 'f"
  Dec_String :: "int \<Rightarrow> string"
  Int_String :: "int \<Rightarrow> string"
  ConsAddress_String :: "bytes \<Rightarrow> string"
  ValAddressFromBech32 :: "string \<Rightarrow> error + bytes"
  ValAddress_String :: "bytes \<Rightarrow> string"
  sort_Slice :: "(Validator \<Rightarrow> Validator \<Rightarrow> bool) \<Rightarrow> Validator list \<Rightarrow> Validator list"

text \<open>
  What a handler does that the outside can see, in order: queries sent upstream, log
  lines (level, message, the \<^verbatim>\<open>address\<close> field or the empty string) and
  \<^verbatim>\<open>gauge.With(labels).Set(value)\<close> calls, one constructor per gauge with its
  labels in the order address, moniker, then denom or pubkey hash.
\<close>

datatype Level = ErrorLevel | InfoLevel | DebugLevel | TraceLevel

datatype 'f Event =
    Query_Validators "64 word" "64 word"
  | Query_SigningInfos "64 word" "64 word"
  | Query_Params
  | Query_SigningInfo string
  | Query_ValidatorDelegations string "64 word"
  | Log Level string string
  | Set_commission string string 'f
  | Set_status string string nat
  | Set_jailed string string nat
  | Set_tokens string string string 'f
  | Set_delegator_shares string string string 'f
  | Set_min_self_delegation string string string 'f
  | Set_missed_blocks string string int
  | Set_rank string string nat
  | Set_active string string string nat
  | Set_delegator_total string nat

section \<open>The validator query: pagination and sorting\<close>

text \<open>
  The closure given to \<^verbatim>\<open>sort.Slice\<close>. Go calls it with two indices into the slice
  being sorted; it reads the two elements there, so it is a comparison of elements.
\<close>

definition less_validators :: "Validator \<Rightarrow> Validator \<Rightarrow> bool" where
  "less_validators vi vj =
     (if \<not> IsBonded vi \<and> IsBonded vj then False
      else if IsBonded vi \<and> \<not> IsBonded vj then True
      else DelegatorShares vi > DelegatorShares vj)"

text \<open>
  \<^verbatim>\<open>sort.Slice\<close> is Go's standard library, and its algorithm has changed between
  releases. What its documentation promises is all that is used here: the result is a
  rearrangement of the slice in which no element is less (by the closure) than an earlier one. It
  says in so many words that the sort is not guaranteed to be stable.
\<close>

definition sort_Slice_post :: "('a \<Rightarrow> 'a \<Rightarrow> bool) \<Rightarrow> 'a list \<Rightarrow> 'a list \<Rightarrow> bool" where
  "sort_Slice_post lt xs ys = (mset ys = mset xs \<and> sorted_wrt (\<lambda>a b. \<not> lt b a) ys)"

text \<open>
  The \<^verbatim>\<open>for\<close> loop of the first goroutine, over the \<^verbatim>\<open>Validators\<close> call of
  the staking client. The second component of the result is
  the trace, the third says whether the loop ended by \<^verbatim>\<open>break\<close> (\<open>True\<close>) or by
  the \<^verbatim>\<open>return\<close> of the error branch (\<open>False\<close>). Nothing bounds the number of pages,
  so the loop is a partial function: \<open>None\<close> is a loop that never ends.
\<close>

partial_function (option) query_validators ::
  "(64 word \<Rightarrow> 64 word \<Rightarrow> error + Validator list option) \<Rightarrow> 64 word \<Rightarrow>
     Validator list \<Rightarrow> 'f Event list \<Rightarrow> (Validator list \<times> 'f Event list \<times> bool) option"
where
  "query_validators stakingClient_Validators lim validators tr =
     (let offset = (of_nat (length validators) :: 64 word);
          tr' = tr @ [Query_Validators lim offset]
      in case stakingClient_Validators lim offset of
           Inl err \<Rightarrow> Some (validators, tr' @ [Log ErrorLevel ''Could not get validators'' []], False)
         | Inr validatorsResponse \<Rightarrow>
             (case validatorsResponse of
                None \<Rightarrow> Some (validators, tr', True)
              | Some validatorsOnPage \<Rightarrow>
                  if validatorsOnPage = [] then Some (validators, tr', True)
                  else query_validators stakingClient_Validators lim (validators @ validatorsOnPage) tr'))"

declare query_validators.simps [code]

text \<open>
  The first goroutine: the loop, then the sort. The error branch returns from the
  goroutine, so the sort below the loop runs only when the loop ended by \<^verbatim>\<open>break\<close>.
\<close>

definition validators_goroutine ::
  "'f Library \<Rightarrow> Upstream \<Rightarrow> 'f ServiceConfig \<Rightarrow> (Validator list \<times> 'f Event list) option"
where
  "validators_goroutine lib up config =
     (case query_validators (Validators up) (Limit config) []
             [Log DebugLevel ''Started querying validators'' []] of
        None \<Rightarrow> None
      | Some (validators, tr, finished) \<Rightarrow>
          if finished
          then Some (sort_Slice lib less_validators validators,
                     tr @ [Log DebugLevel ''Finished querying validators'' []])
          else Some (validators, tr))"

text \<open>The second goroutine: one \<^verbatim>\<open>SigningInfos\<close> request, its offset left at zero.\<close>

definition signing_infos_goroutine ::
  "Upstream \<Rightarrow> 'f ServiceConfig \<Rightarrow> ValidatorSigningInfo list \<times> 'f Event list"
where
  "signing_infos_goroutine up config =
     (let tr = [Log DebugLevel ''Started querying validators signing infos'' [],
                Query_SigningInfos (Limit config) 0]
      in case SigningInfos up (Limit config) 0 of
           Inl err \<Rightarrow> ([], tr @ [Log ErrorLevel ''Could not get validators signing infos'' []])
         | Inr info \<Rightarrow> (info, tr @ [Log DebugLevel ''Finished querying validator signing infos'' []]))"

text \<open>The third goroutine: \<^verbatim>\<open>validatorSetLength\<close> keeps its zero value on error.\<close>

definition params_goroutine :: "Upstream \<Rightarrow> 32 word \<times> 'f Event list" where
  "params_goroutine up =
     (let tr = [Log DebugLevel ''Started querying staking params'' [], Query_Params]
      in case Params up of
           Inl err \<Rightarrow> (0, tr @ [Log ErrorLevel ''Could not get staking params'' []])
         | Inr MaxValidators \<Rightarrow> (MaxValidators, tr @ [Log DebugLevel ''Finished querying staking params'' []]))"

section \<open>The pass over the validators\<close>

text \<open>
  \<^verbatim>\<open>strings.ToUpper(hex.EncodeToString(b))\<close>: two digits per byte from the table
  \<^verbatim>\<open>"0123456789abcdef"\<close>, high nibble first, then the letters in upper case
  (the output of the encoder is ASCII, so only the ASCII letters are mapped).
\<close>

definition hextable :: string where
  "hextable = ''0123456789abcdef''"

definition EncodeToString :: "bytes \<Rightarrow> string" where
  "EncodeToString src =
     concat (map (\<lambda>v. [hextable ! unat (drop_bit 4 v), hextable ! unat (v AND 0x0f)]) src)"

definition ToUpper :: "string \<Rightarrow> string" where
  "ToUpper s =
     map (\<lambda>c. case map_of (zip ''abcdefghijklmnopqrstuvwxyz'' ''ABCDEFGHIJKLMNOPQRSTUVWXYZ'') c of
                 Some u \<Rightarrow> u
               | None \<Rightarrow> c) s"

text \<open>
  One of the three blocks that parse an amount and set a gauge with a denom label:
  \<^verbatim>\<open>if value, err := strconv.ParseFloat(...); err != nil { log } else { Set(value / coefficient) }\<close>.
\<close>

definition scaled ::
  "'f Library \<Rightarrow> 'f ServiceConfig \<Rightarrow> Validator \<Rightarrow> string \<Rightarrow> string \<Rightarrow>
     (string \<Rightarrow> string \<Rightarrow> string \<Rightarrow> 'f \<Rightarrow> 'f Event) \<Rightarrow> 'f Event list"
where
  "scaled lib config validator text msg gauge =
     (case ParseFloat lib text of
        Inl err \<Rightarrow> [Log ErrorLevel msg (OperatorAddress validator)]
      | Inr v \<Rightarrow> [gauge (OperatorAddress validator) (Moniker validator) (Denom config)
                    (float_div lib v (DenomCoefficient config))])"

text \<open>
  The loop body from its top to the computation of \<^verbatim>\<open>pubKey\<close>: commission, status,
  jailed, tokens, delegator shares, minimum self delegation, then the two calls whose
  error is logged and otherwise ignored.
\<close>

definition emit_fields ::
  "'f Library \<Rightarrow> 'f ServiceConfig \<Rightarrow> Validator \<Rightarrow> 'f Event list"
where
  "emit_fields lib config validator =
     (case ParseFloat lib (Dec_String lib (Rate validator)) of
        Inl err \<Rightarrow> [Log ErrorLevel ''Could not get commission'' (OperatorAddress validator)]
      | Inr rate \<Rightarrow> [Set_commission (OperatorAddress validator) (Moniker validator) rate])
     @ [Set_status (OperatorAddress validator) (Moniker validator) (BondStatus_code (Status validator))]
     @ [Set_jailed (OperatorAddress validator) (Moniker validator) (if Jailed validator then 1 else 0)]
     @ scaled lib config validator (Int_String lib (Tokens validator))
         ''Could not parse delegator tokens'' Set_tokens
     @ scaled lib config validator (Dec_String lib (DelegatorShares validator))
         ''Could not parse delegator shares'' Set_delegator_shares
     @ scaled lib config validator (Int_String lib (MinSelfDelegation validator))
         ''Could not parse validator min self delegation'' Set_min_self_delegation
     @ (case UnpackInterfaces validator of
          Some err \<Rightarrow> [Log ErrorLevel ''Could not get unpack validator inferfaces'' (OperatorAddress validator)]
        | None \<Rightarrow> [])
     @ (case snd (GetConsAddr validator) of
          Some err \<Rightarrow> [Log ErrorLevel ''Could not get validator pubkey'' (OperatorAddress validator)]
        | None \<Rightarrow> [])"

text \<open>
  The search of the bulk signing infos, and the single lookup when the search finds
  nothing. \<open>None\<close> in the first component is the \<^verbatim>\<open>continue\<close> of the error branch;
  otherwise \<^verbatim>\<open>found\<close> is true and the component is \<^verbatim>\<open>signingInfo\<close>.
\<close>

definition join_signing_info ::
  "Upstream \<Rightarrow> ValidatorSigningInfo list \<Rightarrow> string \<Rightarrow> Validator \<Rightarrow>
     ValidatorSigningInfo option \<times> 'f Event list"
where
  "join_signing_info up signingInfos pubKey_String validator =
     (case find (\<lambda>signingInfoIterated. pubKey_String = Address signingInfoIterated) signingInfos of
        Some signingInfo \<Rightarrow> (Some signingInfo, [])
      | None \<Rightarrow>
          (case SigningInfo up pubKey_String of
             Inl err \<Rightarrow>
               (None, [Query_SigningInfo pubKey_String,
                       Log DebugLevel ''Could not get signing info for validator'' (OperatorAddress validator)])
           | Inr ValSigningInfo \<Rightarrow> (Some ValSigningInfo, [Query_SigningInfo pubKey_String])))"

text \<open>
  The active-set block. \<^verbatim>\<open>activeValidators\<close> is a Go \<^verbatim>\<open>int\<close> that counts some of
  the validators, so it never leaves the naturals; \<^verbatim>\<open>int(validatorSetLength)\<close> is
  the value of the 32-bit word, \<^verbatim>\<open>int\<close> being 64 bits wide on the platforms the
  exporter is built for.
\<close>

definition active_step ::
  "32 word \<Rightarrow> Validator \<Rightarrow> bytes \<Rightarrow> nat \<Rightarrow> nat \<times> 'f Event list"
where
  "active_step validatorSetLength validator pubKey activeValidators =
     (if validatorSetLength \<noteq> 0 then
        (let active = (1::nat);
             active = (if Jailed validator then 0 else active);
             active = (if activeValidators = unat validatorSetLength then 0 else active)
         in (activeValidators + active,
             [Set_active (OperatorAddress validator) (Moniker validator)
                (ToUpper (EncodeToString pubKey)) active]))
      else (activeValidators, []))"

text \<open>One iteration of the loop, for the validator at \<open>index\<close>.\<close>

definition iteration ::
  "'f Library \<Rightarrow> Upstream \<Rightarrow> 'f ServiceConfig \<Rightarrow> ValidatorSigningInfo list \<Rightarrow> 32 word \<Rightarrow>
     nat \<Rightarrow> Validator \<Rightarrow> nat \<Rightarrow> nat \<times> 'f Event list"
where
  "iteration lib up config signingInfos validatorSetLength index validator activeValidators =
     (let pubKey = fst (GetConsAddr validator);
          head = emit_fields lib config validator
      in case join_signing_info up signingInfos (ConsAddress_String lib pubKey) validator of
           (None, tr) \<Rightarrow> (activeValidators, head @ tr)
         | (Some signingInfo, tr) \<Rightarrow>
             (let found = True;
                  missed =
                    (if found \<and> Status validator = Bonded
                     then [Set_missed_blocks (OperatorAddress validator) (Moniker validator)
                             (sint (MissedBlocksCounter signingInfo))]
                     else [Log TraceLevel ''Validator is not active, not returning missed blocks amount.''
                             (OperatorAddress validator)]);
                  rank = [Set_rank (OperatorAddress validator) (Moniker validator) (index + 1)];
                  (activeValidators', act) =
                     active_step validatorSetLength validator pubKey activeValidators
              in (activeValidators', head @ tr @ missed @ rank @ act)))"

text \<open>\<^verbatim>\<open>for index, validator := range validators\<close>, from \<open>index\<close> on.\<close>

fun range_validators ::
  "'f Library \<Rightarrow> Upstream \<Rightarrow> 'f ServiceConfig \<Rightarrow> ValidatorSigningInfo list \<Rightarrow> 32 word \<Rightarrow>
     nat \<Rightarrow> Validator list \<Rightarrow> nat \<Rightarrow> nat \<times> 'f Event list"
where
  "range_validators lib up config signingInfos validatorSetLength index [] activeValidators =
     (activeValidators, [])"
| "range_validators lib up config signingInfos validatorSetLength index (validator # rest) activeValidators =
     (let (activeValidators', tr) =
            iteration lib up config signingInfos validatorSetLength index validator activeValidators;
          (activeValidators'', tr') =
            range_validators lib up config signingInfos validatorSetLength (index + 1) rest activeValidators'
      in (activeValidators'', tr @ tr'))"

text \<open>
  The handler. The three goroutines write three different variables and the handler
  waits for all of them, so their order does not matter to what follows; their traces
  are kept apart. \<open>body\<close> is what \<^verbatim>\<open>promhttp\<close> serves from the registry: the
  \<^verbatim>\<open>Set\<close> calls made. The handler as a whole returns \<open>None\<close> only when the
  validator query never ends.
\<close>

record 'f ValidatorsResponse =
  validators_trace :: "'f Event list"
  signing_infos_trace :: "'f Event list"
  params_trace :: "'f Event list"
  validators :: "Validator list"
  signingInfos :: "ValidatorSigningInfo list"
  validatorSetLength :: "32 word"
  activeValidators :: nat
  trace :: "'f Event list"

definition ValidatorsHandler ::
  "'f Library \<Rightarrow> Upstream \<Rightarrow> 'f ServiceConfig \<Rightarrow> 'f ValidatorsResponse option"
where
  "ValidatorsHandler lib up config =
     (case validators_goroutine lib up config of
        None \<Rightarrow> None
      | Some (vs, tr1) \<Rightarrow>
          (let (infos, tr2) = signing_infos_goroutine up config;
               (maxv, tr3) = params_goroutine up;
               (n, tr) = range_validators lib up config infos maxv 0 vs 0
           in Some \<lparr>validators_trace = tr1, signing_infos_trace = tr2, params_trace = tr3,
                     validators = vs, signingInfos = infos, validatorSetLength = maxv,
                     activeValidators = n,
                     trace = [Log InfoLevel ''Validators info'' []] @ tr
                       @ [Log InfoLevel ''Active validators'' [],
                          Log InfoLevel ''Request processed'' []]\<rparr>))"

section \<open>The delegator endpoint\<close>

text \<open>
  \<^verbatim>\<open>DelegatorHandler\<close>. \<open>registered\<close> lists the gauges registered, \<open>body\<close> is what
  was written to the response: \<open>None\<close> when \<^verbatim>\<open>ServeHTTP\<close> was never called,
  otherwise the samples of the registry.
\<close>

record 'f DelegatorResponse =
  registered :: "string list"
  delegator_trace :: "'f Event list"
  body :: "'f Event list option"

definition DelegatorHandler ::
  "'f Library \<Rightarrow> Upstream \<Rightarrow> 'f ServiceConfig \<Rightarrow> string \<Rightarrow> 'f DelegatorResponse"
where
  "DelegatorHandler lib up config validatorAddress =
     (case ValAddressFromBech32 lib validatorAddress of
        Inl err \<Rightarrow>
          \<lparr>registered = [],
           delegator_trace = [Log ErrorLevel ''Could not get validator address'' validatorAddress],
           body = None\<rparr>
      | Inr valAddress \<Rightarrow>
          (let started =
                 [Log DebugLevel ''Started querying delegator'' validatorAddress,
                  Query_ValidatorDelegations (ValAddress_String lib valAddress) (Limit config)];
               (samples, tr) =
                 (case ValidatorDelegations up (ValAddress_String lib valAddress) (Limit config) of
                    Inl err \<Rightarrow> ([], [Log ErrorLevel ''Could not get delegator'' validatorAddress])
                  | Inr DelegationResponses \<Rightarrow>
                      ([Set_delegator_total validatorAddress (length DelegationResponses)],
                       [Log DebugLevel ''Finished querying delegators'' validatorAddress,
                        Set_delegator_total validatorAddress (length DelegationResponses)]))
           in \<lparr>registered = [''cosmos_validator_delegator_total''],
                delegator_trace = started @ tr @ [Log InfoLevel ''Request processed'' validatorAddress],
                body = Some samples\<rparr>))"

section \<open>Reading a trace\<close>

text \<open>The value and labels of each kind of sample, where an event is one.\<close>

fun rank_value :: "'f Event \<Rightarrow> nat option" where
  "rank_value (Set_rank address moniker n) = Some n"
| "rank_value _ = None"

fun rank_sample :: "'f Event \<Rightarrow> (string \<times> nat) option" where
  "rank_sample (Set_rank address moniker n) = Some (address, n)"
| "rank_sample _ = None"

fun active_value :: "'f Event \<Rightarrow> nat option" where
  "active_value (Set_active address moniker pubkey_hash n) = Some n"
| "active_value _ = None"

fun active_sample :: "'f Event \<Rightarrow> (string \<times> string \<times> nat) option" where
  "active_sample (Set_active address moniker pubkey_hash n) = Some (address, pubkey_hash, n)"
| "active_sample _ = None"

fun missed_blocks_sample :: "'f Event \<Rightarrow> (string \<times> int) option" where
  "missed_blocks_sample (Set_missed_blocks address moniker n) = Some (address, n)"
| "missed_blocks_sample _ = None"

fun signing_info_query :: "'f Event \<Rightarrow> string option" where
  "signing_info_query (Query_SigningInfo cons_address) = Some cons_address"
| "signing_info_query _ = None"

fun signing_infos_query :: "'f Event \<Rightarrow> (64 word \<times> 64 word) option" where
  "signing_infos_query (Query_SigningInfos lim off) = Some (lim, off)"
| "signing_infos_query _ = None"

section \<open>The properties, in the specification's words\<close>





text \<open>
  A signing-info match for a validator: the first record of the bulk set with its
  consensus address or, when there is none, the record of the single lookup if that
  lookup succeeds. The missed-blocks value the specification gives a validator: the
  counter of the match, for a bonded validator with a match.
\<close>

definition signing_info_match ::
  "'f Library \<Rightarrow> Upstream \<Rightarrow> ValidatorSigningInfo list \<Rightarrow> Validator \<Rightarrow> ValidatorSigningInfo option"
where
  "signing_info_match lib up infos v =
     (let key = ConsAddress_String lib (fst (GetConsAddr v))
      in case find (\<lambda>s. Address s = key) infos of
           Some s \<Rightarrow> Some s
         | None \<Rightarrow> (case SigningInfo up key of Inl err \<Rightarrow> None | Inr s \<Rightarrow> Some s))"

definition spec_missed_blocks ::
  "'f Library \<Rightarrow> Upstream \<Rightarrow> ValidatorSigningInfo list \<Rightarrow> Validator \<Rightarrow> (string \<times> int) option"
where
  "spec_missed_blocks lib up infos v =
     (if Status v = Bonded
      then map_option (\<lambda>s. (OperatorAddress v, sint (MissedBlocksCounter s)))
             (signing_info_match lib up infos v)
      else None)"

text \<open>The lookups the specification asks for: one for each validator the bulk set lacks.\<close>

definition spec_fallback_lookup ::
  "'f Library \<Rightarrow> ValidatorSigningInfo list \<Rightarrow> Validator \<Rightarrow> string option"
where
  "spec_fallback_lookup lib infos v =
     (let key = ConsAddress_String lib (fst (GetConsAddr v))
      in if find (\<lambda>s. Address s = key) infos = None then Some key else None)"

section \<open>A node, a library and validators to run the handlers on\<close>

text \<open>
  An insertion sort that moves each element left past the elements it is less than.
  It stands in for \<^verbatim>\<open>sort.Slice\<close> where a handler is run on given data; the theorems
  about the sort rest on \<open>sort_Slice_post\<close> alone.
\<close>

fun insert_back :: "('a \<Rightarrow> 'a \<Rightarrow> bool) \<Rightarrow> 'a \<Rightarrow> 'a list \<Rightarrow> 'a list" where
  "insert_back lt x [] = [x]"
| "insert_back lt x (y # ys) = (if lt x y then y # insert_back lt x ys else x # y # ys)"

definition insertionSort :: "('a \<Rightarrow> 'a \<Rightarrow> bool) \<Rightarrow> 'a list \<Rightarrow> 'a list" where
  "insertionSort lt xs = rev (foldl (\<lambda>sorted_rev x. insert_back lt x sorted_rev) [] xs)"

text \<open>
  The library used in the runs. A float is the text it was parsed from, and a division
  is written out, so a sample shows where its value came from. The consensus address
  is rendered in hexadecimal instead of bech32; the empty address renders as the empty
  string, as it does in the SDK.
\<close>

definition test_library :: "string Library" where
  "test_library =
     \<lparr>ParseFloat = Inr, float_div = (\<lambda>a b. a @ ''/'' @ b),
      Dec_String = (\<lambda>i. ''dec''), Int_String = (\<lambda>i. ''int''),
      ConsAddress_String = EncodeToString,
      ValAddressFromBech32 =
        (\<lambda>s. if s = ''cosmosvaloper1'' then Inr [1] else Inl ''decoding bech32 failed''),
      ValAddress_String = (\<lambda>b. ''cosmosvaloper1''),
      sort_Slice = insertionSort\<rparr>"

definition test_config :: "string ServiceConfig" where
  "test_config = \<lparr>Limit = 2, Denom = ''atom'', DenomCoefficient = ''1000000''\<rparr>"

text \<open>
  A node that holds a validator list, a signing-info list and a maximum: it serves both
  lists in pages and answers the single lookup from the signing-info list.
\<close>

definition node :: "Validator list \<Rightarrow> ValidatorSigningInfo list \<Rightarrow> 32 word \<Rightarrow> Upstream" where
  "node vals infos maxv =
     \<lparr>Validators = (\<lambda>lim off. Inr (Some (take (unat lim) (drop (unat off) vals)))),
      SigningInfos = (\<lambda>lim off. Inr (take (unat lim) (drop (unat off) infos))),
      Params = Inr maxv,
      SigningInfo = (\<lambda>cons_address. case find (\<lambda>s. Address s = cons_address) infos of
                                       None \<Rightarrow> Inl ''not found''
                                     | Some s \<Rightarrow> Inr s),
      ValidatorDelegations = (\<lambda>addr lim. Inr [])\<rparr>"

definition mk_validator ::
  "string \<Rightarrow> BondStatus \<Rightarrow> bool \<Rightarrow> int \<Rightarrow> bytes \<times> error option \<Rightarrow> Validator"
where
  "mk_validator addr st j shares cons =
     \<lparr>OperatorAddress = addr, Moniker = addr, Jailed = j, Status = st, Tokens = shares,
      DelegatorShares = shares, MinSelfDelegation = 1, Rate = 0, UnpackInterfaces = None,
      GetConsAddr = cons\<rparr>"

text \<open>
  Five validators. \<open>val_new\<close> has never been bonded, so the node has no signing info
  for it; \<open>val_jailed\<close> is jailed; the public key of \<open>val_nokey\<close> is of a type
  the interface registry does not know, so it does not unpack and its consensus address
  is the \<^verbatim>\<open>nil\<close> that comes with the error.
\<close>

definition val_low :: Validator where
  "val_low = mk_validator ''low'' Bonded False 1000 ([0xa1], None)"

definition val_high :: Validator where
  "val_high = mk_validator ''high'' Bonded False 5000 ([0xb2], None)"

definition val_new :: Validator where
  "val_new = mk_validator ''new'' Unbonded False 9999 ([0xd4], None)"

definition val_jailed :: Validator where
  "val_jailed = mk_validator ''jailed'' Unbonding True 7000 ([0xe5], None)"

definition val_nokey :: Validator where
  "val_nokey =
     (mk_validator ''nokey'' Bonded False 3000 ([], Some ''expecting cryptotypes.PubKey''))
       \<lparr>UnpackInterfaces := Some ''no concrete type registered for type URL''\<rparr>"

definition info_low :: ValidatorSigningInfo where
  "info_low = \<lparr>Address = ''a1'', MissedBlocksCounter = 3\<rparr>"

definition info_high :: ValidatorSigningInfo where
  "info_high = \<lparr>Address = ''b2'', MissedBlocksCounter = 0\<rparr>"

definition info_jailed :: ValidatorSigningInfo where
  "info_jailed = \<lparr>Address = ''e5'', MissedBlocksCounter = 40\<rparr>"

text \<open>A node whose validator query fails from the given offset on.\<close>

definition failing_from :: "64 word \<Rightarrow> Upstream \<Rightarrow> Upstream" where
  "failing_from k up =
     up\<lparr>Validators := (\<lambda>lim off. if off < k then Validators up lim off else Inl ''unavailable'')\<rparr>"

text \<open>
  A node with four validators and three signing infos, two to a page; the same node
  with its single lookup out of service; and a node whose parameter request fails.
\<close>

definition demo_node :: Upstream where
  "demo_node = node [val_low, val_new, val_high, val_jailed] [info_low, info_high, info_jailed] 1"

definition lookup_down :: "Upstream \<Rightarrow> Upstream" where
  "lookup_down up = up\<lparr>SigningInfo := (\<lambda>cons_address. Inl ''unavailable'')\<rparr>"

definition params_down :: "Upstream \<Rightarrow> Upstream" where
  "params_down up = up\<lparr>Params := Inl ''unavailable''\<rparr>"

section \<open>The sort of Go's library on a slice of up to 49 elements\<close>




















section \<open>What a response shows\<close>

text \<open>
  The rank samples, the active samples, the single lookups and the bulk requests of a
  response. An event is plain when it is no rank, active or missed-blocks sample and no
  single lookup.
\<close>

definition emitted_ranks :: "'f ValidatorsResponse \<Rightarrow> (string \<times> nat) list" where
  "emitted_ranks r = List.map_filter rank_sample (trace r)"

definition emitted_active :: "'f ValidatorsResponse \<Rightarrow> (string \<times> string \<times> nat) list" where
  "emitted_active r = List.map_filter active_sample (trace r)"

definition fallback_lookups :: "'f ValidatorsResponse \<Rightarrow> string list" where
  "fallback_lookups r = List.map_filter signing_info_query (trace r)"

definition bulk_queries :: "'f ValidatorsResponse \<Rightarrow> (64 word \<times> 64 word) list" where
  "bulk_queries r = List.map_filter signing_infos_query (signing_infos_trace r)"

definition plain :: "'f Event \<Rightarrow> bool" where
  "plain e = (rank_value e = None \<and> rank_sample e = None \<and> active_value e = None \<and>
              active_sample e = None \<and> missed_blocks_sample e = None \<and> signing_info_query e = None)"

section \<open>The comparator and the sort\<close>

lemma less_validators_irrefl: "\<not> less_validators a a"
  by (simp add: less_validators_def)

lemma less_validators_asym: "less_validators a b \<Longrightarrow> \<not> less_validators b a"
  by (auto simp: less_validators_def split: if_splits)

lemma less_validators_negtrans:
  "\<not> less_validators a b \<Longrightarrow> \<not> less_validators b c \<Longrightarrow> \<not> less_validators a c"
  by (auto simp: less_validators_def split: if_splits)

lemma less_validators_bonded: "IsBonded a \<Longrightarrow> \<not> IsBonded b \<Longrightarrow> less_validators a b"
  by (simp add: less_validators_def)

lemma less_validators_shares:
  "IsBonded a = IsBonded b \<Longrightarrow> less_validators a b = (DelegatorShares a > DelegatorShares b)"
  by (auto simp: less_validators_def)

lemma mset_insert_back: "mset (insert_back lt x ys) = add_mset x (mset ys)"
  by (induction ys) auto

lemma set_insert_back: "set (insert_back lt x ys) = insert x (set ys)"
  by (induction ys) auto

lemma mset_foldl_insert_back:
  "mset (foldl (\<lambda>acc x. insert_back lt x acc) acc xs) = mset acc + mset xs"
  by (induction xs arbitrary: acc) (auto simp: mset_insert_back)

lemma sorted_insert_back:
  "sorted_wrt (\<lambda>a b. \<not> less_validators a b) ys \<Longrightarrow>
   sorted_wrt (\<lambda>a b. \<not> less_validators a b) (insert_back less_validators x ys)"
proof (induction ys)
  case Nil
  then show ?case by simp
next
  case (Cons y ys)
  show ?case
  proof (cases "less_validators x y")
    case True
    with Cons show ?thesis
      by (auto simp: set_insert_back dest: less_validators_asym)
  next
    case False
    with Cons.prems show ?thesis
      by (auto dest: less_validators_negtrans)
  qed
qed

lemma sorted_foldl_insert_back:
  "sorted_wrt (\<lambda>a b. \<not> less_validators a b) acc \<Longrightarrow>
   sorted_wrt (\<lambda>a b. \<not> less_validators a b)
     (foldl (\<lambda>acc x. insert_back less_validators x acc) acc xs)"
  by (induction xs arbitrary: acc) (auto simp: sorted_insert_back)

text \<open>The contract can be met on every input: the insertion sort meets it.\<close>

lemma insertionSort_post: "sort_Slice_post less_validators xs (insertionSort less_validators xs)"
  by (simp add: sort_Slice_post_def insertionSort_def mset_foldl_insert_back
      sorted_wrt_rev sorted_foldl_insert_back)

lemma sorted_positions:
  assumes "sorted_wrt (\<lambda>a b. \<not> less_validators b a) ys" "i < length ys" "j < length ys"
    and "less_validators (ys ! i) (ys ! j)"
  shows "i < j"
proof (rule ccontr)
  assume "\<not> i < j"
  then consider "i = j" | "j < i" by linarith
  then show False
  proof cases
    case 1
    with assms(4) show False by (simp add: less_validators_irrefl)
  next
    case 2
    with assms(1,2) have "\<not> less_validators (ys ! i) (ys ! j)"
      by (simp add: sorted_wrt_iff_nth_less)
    with assms(4) show False by simp
  qed
qed




lemma validators_goroutine_finished:
  assumes "query_validators (Validators up) (Limit config) [] [Log DebugLevel ''Started querying validators'' []]
             = Some (collected, tr, True)"
  shows "validators_goroutine lib up config
           = Some (sort_Slice lib less_validators collected,
                   tr @ [Log DebugLevel ''Finished querying validators'' []])"
  using assms by (simp add: validators_goroutine_def)

lemma validators_goroutine_failed:
  assumes "query_validators (Validators up) (Limit config) [] [Log DebugLevel ''Started querying validators'' []]
             = Some (collected, tr, False)"
  shows "validators_goroutine lib up config = Some (collected, tr)"
  using assms by (simp add: validators_goroutine_def)

lemma ValidatorsHandler_validators:
  assumes "validators_goroutine lib up config = Some (vs, tr)"
  shows "\<exists>r. ValidatorsHandler (lib :: 'f Library) up config = Some r \<and> validators r = vs
             \<and> validators_trace r = tr
             \<and> signingInfos r = fst (signing_infos_goroutine up config :: _ \<times> 'f Event list)
             \<and> validatorSetLength r = fst (params_goroutine up :: _ \<times> 'f Event list)"
  using assms by (simp add: ValidatorsHandler_def split: prod.splits)

text \<open>
  Claim C1. On the path where the validator query ends normally, the list the handler
  ranks is a rearrangement of the validators collected in which every bonded validator
  stands before every validator that is not bonded, whatever their shares, and among
  validators of the same bonded state one with more delegator shares stands before one
  with fewer. The shares are compared as the integers \<^verbatim>\<open>Dec.BigInt()\<close> returns;
  no floating-point value takes part. The rank of a validator is its position plus one.
\<close>

theorem sort_bonded_first_then_shares_descending:
  fixes lib :: "'f Library" and tr :: "'f Event list"
  assumes "query_validators (Validators up) (Limit config) [] [Log DebugLevel ''Started querying validators'' []]
             = Some (collected, tr, True)"
    and "sort_Slice_post less_validators collected (sort_Slice lib less_validators collected)"
  shows "\<exists>r. ValidatorsHandler lib up config = Some r \<and> mset (validators r) = mset collected \<and>
           (\<forall>i < length (validators r). \<forall>j < length (validators r).
              (IsBonded (validators r ! i) \<and> \<not> IsBonded (validators r ! j) \<longrightarrow> i < j) \<and>
              (IsBonded (validators r ! i) = IsBonded (validators r ! j) \<and>
               DelegatorShares (validators r ! i) > DelegatorShares (validators r ! j) \<longrightarrow> i < j))"
proof -
  let ?ys = "sort_Slice lib less_validators collected"
  from validators_goroutine_finished[OF assms(1)] ValidatorsHandler_validators
  obtain r where r: "ValidatorsHandler lib up config = Some r" "validators r = ?ys"
    by blast
  have srt: "sorted_wrt (\<lambda>a b. \<not> less_validators b a) ?ys" and ms: "mset ?ys = mset collected"
    using assms(2) by (simp_all add: sort_Slice_post_def)
  have b1: "i < j" if "i < length ?ys" "j < length ?ys" "IsBonded (?ys ! i)" "\<not> IsBonded (?ys ! j)" for i j
    using sorted_positions[OF srt that(1,2)] that(3,4) by (simp add: less_validators_bonded)
  have b2: "i < j" if "i < length ?ys" "j < length ?ys" "IsBonded (?ys ! i) = IsBonded (?ys ! j)"
    "DelegatorShares (?ys ! i) > DelegatorShares (?ys ! j)" for i j
    using sorted_positions[OF srt that(1,2)] that(3,4) by (simp add: less_validators_shares)
  show ?thesis
  proof (intro exI conjI)
    show "ValidatorsHandler lib up config = Some r" by (rule r(1))
    show "mset (validators r) = mset collected" by (simp only: r(2) ms)
    show "\<forall>i < length (validators r). \<forall>j < length (validators r).
              (IsBonded (validators r ! i) \<and> \<not> IsBonded (validators r ! j) \<longrightarrow> i < j) \<and>
              (IsBonded (validators r ! i) = IsBonded (validators r ! j) \<and>
               DelegatorShares (validators r ! i) > DelegatorShares (validators r ! j) \<longrightarrow> i < j)"
      unfolding r(2) using b1 b2 by blast
  qed
qed


lemma query_three:
  "query_validators (Validators (node [val_low, val_new, val_high] [info_low, info_high] 1)) (Limit test_config) []
     [Log DebugLevel ''Started querying validators'' [] :: string Event]
   = Some ([val_low, val_new, val_high],
           [Log DebugLevel ''Started querying validators'' [], Query_Validators 2 0,
            Query_Validators 2 2, Query_Validators 2 3], True)"
  by (simp add: query_validators.simps node_def test_config_def)

theorem sort_bonded_first_then_shares_descending_witness:
  "query_validators (Validators (node [val_low, val_new, val_high] [info_low, info_high] 1)) (Limit test_config) []
     [Log DebugLevel ''Started querying validators'' [] :: string Event]
   = Some ([val_low, val_new, val_high],
           [Log DebugLevel ''Started querying validators'' [], Query_Validators 2 0,
            Query_Validators 2 2, Query_Validators 2 3], True) \<and>
   sort_Slice_post less_validators [val_low, val_new, val_high]
     (sort_Slice test_library less_validators [val_low, val_new, val_high]) \<and>
   (\<exists>r. ValidatorsHandler test_library (node [val_low, val_new, val_high] [info_low, info_high] 1) test_config
          = Some r \<and>
        mset (validators r) = mset [val_low, val_new, val_high] \<and>
        (\<forall>i < length (validators r). \<forall>j < length (validators r).
           (IsBonded (validators r ! i) \<and> \<not> IsBonded (validators r ! j) \<longrightarrow> i < j) \<and>
           (IsBonded (validators r ! i) = IsBonded (validators r ! j) \<and>
            DelegatorShares (validators r ! i) > DelegatorShares (validators r ! j) \<longrightarrow> i < j)))"
proof -
  have s: "sort_Slice test_library = insertionSort"
    by (simp add: test_library_def)
  have 2: "sort_Slice_post less_validators [val_low, val_new, val_high]
             (sort_Slice test_library less_validators [val_low, val_new, val_high])"
    unfolding s by (rule insertionSort_post)
  show ?thesis
    by (rule conjI[OF query_three conjI[OF 2
          sort_bonded_first_then_shares_descending[OF query_three 2]]])
qed

section \<open>The pass over the validators\<close>

lemma map_filter_append: "List.map_filter f (xs @ ys) = List.map_filter f xs @ List.map_filter f ys"
  by (simp add: List.map_filter_def)

lemma map_filter_none: "(\<And>e. e \<in> set xs \<Longrightarrow> f e = None) \<Longrightarrow> List.map_filter f xs = []"
  by (induction xs) (simp_all add: List.map_filter_simps)

lemma filter_all: "(\<And>e. e \<in> set xs \<Longrightarrow> P e) \<Longrightarrow> filter P xs = xs"
  by (induction xs) simp_all

text \<open>The first part of the loop body sets no rank, active or missed-blocks sample and sends no query.\<close>

lemma scaled_tokens_events: "e \<in> set (scaled lib config v text msg Set_tokens) \<Longrightarrow> plain e"
  by (auto simp: scaled_def plain_def split: sum.splits)

lemma scaled_shares_events: "e \<in> set (scaled lib config v text msg Set_delegator_shares) \<Longrightarrow> plain e"
  by (auto simp: scaled_def plain_def split: sum.splits)

lemma scaled_min_events: "e \<in> set (scaled lib config v text msg Set_min_self_delegation) \<Longrightarrow> plain e"
  by (auto simp: scaled_def plain_def split: sum.splits)

lemma emit_fields_plain:
  assumes "e \<in> set (emit_fields lib config v)"
  shows "plain e"
proof -
  from assms consider
      "e \<in> set (scaled lib config v (Int_String lib (Tokens v)) ''Could not parse delegator tokens'' Set_tokens)"
    | "e \<in> set (scaled lib config v (Dec_String lib (DelegatorShares v)) ''Could not parse delegator shares'' Set_delegator_shares)"
    | "e \<in> set (scaled lib config v (Int_String lib (MinSelfDelegation v)) ''Could not parse validator min self delegation'' Set_min_self_delegation)"
    | "e = Log ErrorLevel ''Could not get commission'' (OperatorAddress v)"
    | "\<exists>rate. e = Set_commission (OperatorAddress v) (Moniker v) rate"
    | "e = Set_status (OperatorAddress v) (Moniker v) (BondStatus_code (Status v))"
    | "e = Set_jailed (OperatorAddress v) (Moniker v) (if Jailed v then 1 else 0)"
    | "e = Log ErrorLevel ''Could not get unpack validator inferfaces'' (OperatorAddress v)"
    | "e = Log ErrorLevel ''Could not get validator pubkey'' (OperatorAddress v)"
    unfolding emit_fields_def set_append
    by (auto split: sum.splits option.splits)
  then show ?thesis
    by cases (auto simp: plain_def scaled_tokens_events[unfolded plain_def]
        scaled_shares_events[unfolded plain_def] scaled_min_events[unfolded plain_def])
qed

lemma emit_fields_events:
  assumes "e \<in> set (emit_fields lib config v)"
  shows "rank_value e = None \<and> rank_sample e = None \<and> active_value e = None \<and> active_sample e = None
       \<and> missed_blocks_sample e = None \<and> signing_info_query e = None"
  using emit_fields_plain[OF assms] by (simp add: plain_def)

lemma join_events:
  assumes "e \<in> set (snd (join_signing_info up infos key v))"
  shows "rank_value e = None \<and> rank_sample e = None \<and> active_value e = None \<and> active_sample e = None
       \<and> missed_blocks_sample e = None"
  using assms
  by (auto simp: join_signing_info_def split: sum.splits option.splits)

lemma join_match:
  "fst (join_signing_info up infos (ConsAddress_String lib (fst (GetConsAddr v))) v
         :: ValidatorSigningInfo option \<times> 'f Event list)
     = signing_info_match lib up infos v"
  by (auto simp: join_signing_info_def signing_info_match_def Let_def eq_commute[of "ConsAddress_String lib (fst (GetConsAddr v))"]
      split: sum.splits option.splits)

lemma join_queries:
  "List.map_filter signing_info_query
     (snd (join_signing_info up infos (ConsAddress_String lib (fst (GetConsAddr v))) v
         :: ValidatorSigningInfo option \<times> 'f Event list))
     = (case spec_fallback_lookup lib infos v of None \<Rightarrow> [] | Some k \<Rightarrow> [k])"
  by (auto simp: join_signing_info_def spec_fallback_lookup_def Let_def
      eq_commute[of "ConsAddress_String lib (fst (GetConsAddr v))"]
      split: sum.splits option.splits)

text \<open>The two ways through one iteration: the \<^verbatim>\<open>continue\<close>, and the rest of the body.\<close>

lemma iteration_continue:
  fixes lib :: "'f Library"
  assumes "signing_info_match lib up infos v = None"
  shows "iteration lib up config infos maxv index v a =
           (a, emit_fields lib config v
               @ snd (join_signing_info up infos (ConsAddress_String lib (fst (GetConsAddr v))) v))"
proof -
  obtain m tr where j: "join_signing_info up infos (ConsAddress_String lib (fst (GetConsAddr v))) v
                     = (m, tr :: 'f Event list)"
    by (cases "join_signing_info up infos (ConsAddress_String lib (fst (GetConsAddr v))) v :: _ \<times> 'f Event list")
  with join_match[of up infos lib v, where 'f = 'f] assms have "m = None" by simp
  with j have "join_signing_info up infos (ConsAddress_String lib (fst (GetConsAddr v))) v
                 = (None, tr)" by simp
  then show ?thesis by (simp add: iteration_def Let_def case_prod_beta)
qed

lemma iteration_found:
  fixes lib :: "'f Library"
  assumes "signing_info_match lib up infos v = Some si"
  shows "iteration lib up config infos maxv index v a =
           (fst (active_step maxv v (fst (GetConsAddr v)) a :: nat \<times> 'f Event list),
            emit_fields lib config v
            @ snd (join_signing_info up infos (ConsAddress_String lib (fst (GetConsAddr v))) v)
            @ (if Status v = Bonded
               then [Set_missed_blocks (OperatorAddress v) (Moniker v) (sint (MissedBlocksCounter si))]
               else [Log TraceLevel ''Validator is not active, not returning missed blocks amount.''
                       (OperatorAddress v)])
            @ [Set_rank (OperatorAddress v) (Moniker v) (index + 1)]
            @ snd (active_step maxv v (fst (GetConsAddr v)) a))"
proof -
  obtain m tr where j: "join_signing_info up infos (ConsAddress_String lib (fst (GetConsAddr v))) v
                     = (m, tr :: 'f Event list)"
    by (cases "join_signing_info up infos (ConsAddress_String lib (fst (GetConsAddr v))) v :: _ \<times> 'f Event list")
  with join_match[of up infos lib v, where 'f = 'f] assms have "m = Some si" by simp
  with j have "join_signing_info up infos (ConsAddress_String lib (fst (GetConsAddr v))) v
                 = (Some si, tr)" by simp
  then show ?thesis by (simp add: iteration_def Let_def case_prod_beta)
qed

lemma active_step_events:
  assumes "e \<in> set (snd (active_step maxv v pk a))"
  shows "rank_value e = None \<and> rank_sample e = None \<and> missed_blocks_sample e = None
       \<and> signing_info_query e = None"
  using assms by (auto simp: active_step_def Let_def split: if_splits)

lemma active_step_value:
  "List.map_filter active_value (snd (active_step maxv v pk a)) =
     (if maxv = 0 then [] else [if Jailed v \<or> a = unat maxv then 0 else 1])"
  by (simp add: active_step_def Let_def)

lemma active_step_count:
  "fst (active_step maxv v pk a :: nat \<times> 'f Event list) =
     a + sum_list (List.map_filter active_value (snd (active_step maxv v pk a :: nat \<times> 'f Event list)))"
  by (simp add: active_step_def Let_def)

text \<open>What one iteration sets and asks, gauge by gauge.\<close>

lemma iteration_ranks:
  "List.map_filter rank_sample (snd (iteration lib up config infos maxv index v a)) =
     (case signing_info_match lib up infos v of
        None \<Rightarrow> []
      | Some si \<Rightarrow> [(OperatorAddress v, index + 1)])"
proof (cases "signing_info_match lib up infos v")
  case None
  show ?thesis
    by (simp add: iteration_continue[OF None] None map_filter_append
        map_filter_none[of _ rank_sample] emit_fields_events join_events)
next
  case (Some si)
  show ?thesis
    by (simp add: iteration_found[OF Some] Some map_filter_append
        map_filter_none[of _ rank_sample] emit_fields_events join_events active_step_events)
qed

lemma iteration_missed_blocks:
  "List.map_filter missed_blocks_sample (snd (iteration lib up config infos maxv index v a)) =
     (case spec_missed_blocks lib up infos v of None \<Rightarrow> [] | Some x \<Rightarrow> [x])"
proof (cases "signing_info_match lib up infos v")
  case None
  show ?thesis
    by (simp add: iteration_continue[OF None] None map_filter_append spec_missed_blocks_def
        map_filter_none[of _ missed_blocks_sample] emit_fields_events join_events)
next
  case (Some si)
  show ?thesis
    by (simp add: iteration_found[OF Some] Some map_filter_append spec_missed_blocks_def
        map_filter_none[of _ missed_blocks_sample] emit_fields_events join_events active_step_events)
qed

lemma iteration_queries:
  "List.map_filter signing_info_query (snd (iteration lib up config infos maxv index v a)) =
     (case spec_fallback_lookup lib infos v of None \<Rightarrow> [] | Some k \<Rightarrow> [k])"
proof (cases "signing_info_match lib up infos v")
  case None
  show ?thesis
    by (simp add: iteration_continue[OF None] map_filter_append join_queries
        map_filter_none[of _ signing_info_query] emit_fields_events)
next
  case (Some si)
  show ?thesis
    by (simp add: iteration_found[OF Some] map_filter_append join_queries
        map_filter_none[of _ signing_info_query] emit_fields_events active_step_events)
qed

lemma iteration_active:
  "List.map_filter active_value (snd (iteration lib up config infos maxv index v a)) =
     (case signing_info_match lib up infos v of
        None \<Rightarrow> []
      | Some si \<Rightarrow> if maxv = 0 then [] else [if Jailed v \<or> a = unat maxv then 0 else 1])"
proof (cases "signing_info_match lib up infos v")
  case None
  show ?thesis
    by (simp add: iteration_continue[OF None] None map_filter_append
        map_filter_none[of _ active_value] emit_fields_events join_events)
next
  case (Some si)
  show ?thesis
    by (simp add: iteration_found[OF Some] Some map_filter_append active_step_value
        map_filter_none[of _ active_value] emit_fields_events join_events)
qed

lemma iteration_count:
  "fst (iteration lib up config infos maxv index v a) =
     a + sum_list (List.map_filter active_value (snd (iteration lib up config infos maxv index v a)))"
proof (cases "signing_info_match lib up infos v")
  case None
  show ?thesis
    by (simp add: iteration_continue[OF None] map_filter_append
        map_filter_none[of _ active_value] emit_fields_events join_events)
next
  case (Some si)
  show ?thesis
    by (simp add: iteration_found[OF Some] map_filter_append active_step_count[symmetric]
        map_filter_none[of _ active_value] emit_fields_events join_events)
qed

text \<open>The whole loop: the samples of the iterations, one validator after the other.\<close>

lemma range_validators_Cons:
  "range_validators lib up config infos maxv index (v # vs) a =
     (fst (range_validators lib up config infos maxv (index + 1) vs
             (fst (iteration lib up config infos maxv index v a))),
      snd (iteration lib up config infos maxv index v a)
      @ snd (range_validators lib up config infos maxv (index + 1) vs
               (fst (iteration lib up config infos maxv index v a))))"
  by (simp add: case_prod_beta Let_def)

lemma range_missed_blocks:
  "List.map_filter missed_blocks_sample (snd (range_validators lib up config infos maxv index vs a)) =
     List.map_filter (spec_missed_blocks lib up infos) vs"
proof (induction vs arbitrary: index a)
  case Nil
  show ?case by simp
next
  case (Cons v vs)
  show ?case
    by (simp only: range_validators_Cons snd_conv map_filter_append iteration_missed_blocks Cons.IH)
       (simp split: option.splits)
qed

lemma range_queries:
  "List.map_filter signing_info_query (snd (range_validators lib up config infos maxv index vs a)) =
     List.map_filter (spec_fallback_lookup lib infos) vs"
proof (induction vs arbitrary: index a)
  case Nil
  show ?case by simp
next
  case (Cons v vs)
  show ?case
    by (simp only: range_validators_Cons snd_conv map_filter_append iteration_queries Cons.IH)
       (simp split: option.splits)
qed

lemma range_ranks:
  "List.map_filter rank_sample (snd (range_validators lib up config infos maxv index vs a)) =
     List.map_filter
       (\<lambda>(i, v). map_option (\<lambda>si. (OperatorAddress v, i + 1)) (signing_info_match lib up infos v))
       (zip [index ..< index + length vs] vs)"
proof (induction vs arbitrary: index a)
  case Nil
  show ?case by simp
next
  case (Cons v vs)
  have "[index ..< index + Suc (length vs)] = index # [Suc index ..< index + Suc (length vs)]"
    by (rule upt_conv_Cons) simp
  then have "[index ..< index + length (v # vs)] = index # [index + 1 ..< (index + 1) + length vs]"
    by simp
  then show ?case
    by (simp only: range_validators_Cons snd_conv map_filter_append iteration_ranks Cons.IH zip_Cons_Cons)
       (simp split: option.splits)
qed

lemma range_count:
  "fst (range_validators lib up config infos maxv index vs a) =
     a + sum_list (List.map_filter active_value (snd (range_validators lib up config infos maxv index vs a)))"
proof (induction vs arbitrary: index a)
  case Nil
  show ?case by simp
next
  case (Cons v vs)
  show ?case
    by (simp only: range_validators_Cons fst_conv snd_conv map_filter_append sum_list_append
        Cons.IH[of "index + 1" "fst (iteration lib up config infos maxv index v a)"])
       (simp add: iteration_count[of lib up config infos maxv index v a])
qed

lemma iteration_cap:
  assumes "a \<le> unat maxv"
  shows "fst (iteration lib up config infos maxv index v a) \<le> unat maxv"
  using assms
  by (auto simp: iteration_count[of lib up config infos maxv index v a] iteration_active
      split: option.splits)

lemma range_cap:
  assumes "a \<le> unat maxv"
  shows "fst (range_validators lib up config infos maxv index vs a) \<le> unat maxv"
  using assms
proof (induction vs arbitrary: index a)
  case Nil
  then show ?case by simp
next
  case (Cons v vs)
  from Cons.IH[OF iteration_cap[OF Cons.prems]] show ?case
    by (simp only: range_validators_Cons fst_conv)
qed

lemma iteration_bits:
  "n \<in> set (List.map_filter active_value (snd (iteration lib up config infos maxv index v a)))
     \<Longrightarrow> n = 0 \<or> n = 1"
  by (auto simp: iteration_active split: option.splits if_splits)

lemma range_bits:
  "n \<in> set (List.map_filter active_value (snd (range_validators lib up config infos maxv index vs a)))
     \<Longrightarrow> n = 0 \<or> n = 1"
proof (induction vs arbitrary: index a)
  case Nil
  then show ?case by simp
next
  case (Cons v vs)
  from Cons.prems show ?case
    by (simp only: range_validators_Cons snd_conv map_filter_append set_append Un_iff)
       (blast dest: iteration_bits Cons.IH)
qed

lemma sum_list_bits:
  "(\<And>n. n \<in> set ns \<Longrightarrow> n = 0 \<or> n = (1::nat)) \<Longrightarrow> sum_list ns = length (filter (\<lambda>n. n = 1) ns)"
  by (induction ns) auto

section \<open>The handler as a whole\<close>

lemma ValidatorsHandler_Some:
  fixes lib :: "'f Library"
  assumes "ValidatorsHandler lib up config = Some r"
  shows "\<exists>tr. validators_goroutine lib up config = Some (validators r, tr)"
    and "signingInfos r = fst (signing_infos_goroutine up config :: _ \<times> 'f Event list)"
    and "validatorSetLength r = fst (params_goroutine up :: _ \<times> 'f Event list)"
    and "activeValidators r =
           fst (range_validators lib up config (signingInfos r) (validatorSetLength r) 0 (validators r) 0)"
    and "trace r = [Log InfoLevel ''Validators info'' []]
           @ snd (range_validators lib up config (signingInfos r) (validatorSetLength r) 0 (validators r) 0)
           @ [Log InfoLevel ''Active validators'' [], Log InfoLevel ''Request processed'' []]"
  using assms
  by (auto simp: ValidatorsHandler_def case_prod_beta Let_def split: option.splits)

lemma trace_samples:
  fixes lib :: "'f Library"
  assumes "ValidatorsHandler lib up config = Some r"
  shows "List.map_filter rank_sample (trace r) =
           List.map_filter rank_sample
             (snd (range_validators lib up config (signingInfos r) (validatorSetLength r) 0 (validators r) 0))"
    and "List.map_filter active_value (trace r) =
           List.map_filter active_value
             (snd (range_validators lib up config (signingInfos r) (validatorSetLength r) 0 (validators r) 0))"
    and "List.map_filter missed_blocks_sample (trace r) =
           List.map_filter missed_blocks_sample
             (snd (range_validators lib up config (signingInfos r) (validatorSetLength r) 0 (validators r) 0))"
    and "List.map_filter signing_info_query (trace r) =
           List.map_filter signing_info_query
             (snd (range_validators lib up config (signingInfos r) (validatorSetLength r) 0 (validators r) 0))"
  by (simp_all add: ValidatorsHandler_Some(5)[OF assms] map_filter_append)

text \<open>
  Claim C6. The missed-blocks samples of a request are, in the order of the validators,
  those of the bonded validators that have a signing-info match, each with the counter of
  its match: a record of the bulk set or, when the bulk set has none for the validator,
  the record that the one single lookup returns. A validator that is not bonded gets no
  missed-blocks sample, match or no match. The single lookups sent are those for the
  validators that the bulk set lacks, one each.
\<close>

theorem missed_blocks_iff_bonded_and_matched:
  assumes "ValidatorsHandler lib up config = Some r"
  shows "List.map_filter missed_blocks_sample (trace r) =
           List.map_filter (spec_missed_blocks lib up (signingInfos r)) (validators r) \<and>
         List.map_filter signing_info_query (trace r) =
           List.map_filter (spec_fallback_lookup lib (signingInfos r)) (validators r)"
  by (simp add: trace_samples[OF assms] range_missed_blocks range_queries)

lemma query_demo:
  "query_validators (Validators demo_node) (Limit test_config) []
     [Log DebugLevel ''Started querying validators'' [] :: string Event]
   = Some ([val_low, val_new, val_high, val_jailed],
           [Log DebugLevel ''Started querying validators'' [], Query_Validators 2 0,
            Query_Validators 2 2, Query_Validators 2 4], True)"
  by (simp add: query_validators.simps demo_node_def node_def test_config_def)

lemma sort_demo:
  "sort_Slice test_library less_validators [val_low, val_new, val_high, val_jailed]
     = [val_high, val_low, val_new, val_jailed]"
  by (simp add: test_library_def insertionSort_def less_validators_def IsBonded_def
      val_low_def val_new_def val_high_def val_jailed_def mk_validator_def)

lemma demo_run:
  "\<exists>r. ValidatorsHandler test_library demo_node test_config = Some r \<and>
       validators r = [val_high, val_low, val_new, val_jailed] \<and>
       signingInfos r = [info_low, info_high] \<and> validatorSetLength r = 1"
proof -
  have "validators_goroutine test_library demo_node test_config
          = Some ([val_high, val_low, val_new, val_jailed],
                  [Log DebugLevel ''Started querying validators'' [], Query_Validators 2 0,
                   Query_Validators 2 2, Query_Validators 2 4]
                  @ [Log DebugLevel ''Finished querying validators'' []])"
    using validators_goroutine_finished[OF query_demo, of test_library] by (simp only: sort_demo)
  from ValidatorsHandler_validators[OF this] show ?thesis
    by (auto simp: signing_infos_goroutine_def params_goroutine_def demo_node_def node_def test_config_def)
qed

lemma spec_missed_demo:
  "List.map_filter (spec_missed_blocks test_library demo_node [info_low, info_high])
      [val_high, val_low, val_new, val_jailed] = [(''high'', 0), (''low'', 3)]"
  by code_simp

lemma spec_lookup_demo:
  "List.map_filter (spec_fallback_lookup test_library [info_low, info_high])
      [val_high, val_low, val_new, val_jailed] = [''d4'', ''e5'']"
  by code_simp

theorem missed_blocks_iff_bonded_and_matched_witness:
  "\<exists>r. ValidatorsHandler test_library demo_node test_config = Some r \<and>
       validators r = [val_high, val_low, val_new, val_jailed] \<and>
       List.map_filter missed_blocks_sample (trace r) = [(''high'', 0), (''low'', 3)] \<and>
       List.map_filter signing_info_query (trace r) = [''d4'', ''e5'']"
proof -
  from demo_run obtain r where r: "ValidatorsHandler test_library demo_node test_config = Some r"
    "validators r = [val_high, val_low, val_new, val_jailed]" "signingInfos r = [info_low, info_high]"
    by blast
  from missed_blocks_iff_bonded_and_matched[OF r(1)]
  have "List.map_filter missed_blocks_sample (trace r) = [(''high'', 0), (''low'', 3)] \<and>
        List.map_filter signing_info_query (trace r) = [''d4'', ''e5'']"
    by (simp only: r(2,3) spec_missed_demo spec_lookup_demo)
  with r(1,2) show ?thesis by blast
qed

section \<open>The active set\<close>

lemma active_step_filter:
  "filter (\<lambda>e. active_value e = None) (snd (active_step maxv v pk a)) = []"
  by (simp add: active_step_def Let_def)

lemma active_step_zero: "active_step 0 v pk a = (a, [])"
  by (simp add: active_step_def)

lemma iteration_without_active:
  fixes lib :: "'f Library"
  shows "filter (\<lambda>e. active_value e = None) (snd (iteration lib up config infos maxv index v a)) =
           snd (iteration lib up config infos 0 index v a')"
proof (cases "signing_info_match lib up infos v")
  case None
  show ?thesis
    by (simp add: iteration_continue[OF None] filter_all emit_fields_events join_events)
next
  case (Some si)
  show ?thesis
    by (simp add: iteration_found[OF Some] filter_all emit_fields_events join_events
        active_step_filter active_step_zero)
qed

lemma iteration_zero_count: "fst (iteration lib up config infos 0 index v a) = a"
  by (simp add: iteration_count[of lib up config infos 0 index v a] iteration_active split: option.splits)

lemma range_without_active:
  "filter (\<lambda>e. active_value e = None) (snd (range_validators lib up config infos maxv index vs a)) =
     snd (range_validators lib up config infos 0 index vs a')"
proof (induction vs arbitrary: index a a')
  case Nil
  show ?case by simp
next
  case (Cons v vs)
  show ?case
    by (simp only: range_validators_Cons snd_conv filter_append
        iteration_without_active[of lib up config infos maxv index v a a']
        Cons.IH[of "index + 1" "fst (iteration lib up config infos maxv index v a)"
                   "fst (iteration lib up config infos 0 index v a')"])
qed

lemma range_zero:
  "fst (range_validators lib up config infos 0 index vs a) = a \<and>
   List.map_filter active_value (snd (range_validators lib up config infos 0 index vs a)) = []"
proof (induction vs arbitrary: index a)
  case Nil
  show ?case by simp
next
  case (Cons v vs)
  show ?case
    by (simp only: range_validators_Cons fst_conv snd_conv map_filter_append iteration_zero_count Cons.IH)
       (simp add: iteration_active split: option.splits)
qed

lemma join_signing_info_Params:
  "join_signing_info (up\<lparr>Params := p\<rparr>) infos key v = join_signing_info up infos key v"
  by (simp add: join_signing_info_def split: option.splits)

lemma iteration_Params:
  "iteration lib (up\<lparr>Params := p\<rparr>) config infos maxv index v a =
     iteration lib up config infos maxv index v a"
  by (simp add: iteration_def join_signing_info_Params)

lemma range_validators_Params:
  "range_validators lib (up\<lparr>Params := p\<rparr>) config infos maxv index vs a =
     range_validators lib up config infos maxv index vs a"
  by (induction vs arbitrary: index a) (simp_all add: iteration_Params)

lemma ValidatorsHandler_Params:
  fixes lib :: "'f Library"
  assumes "ValidatorsHandler lib up config = Some r"
  shows "\<exists>r'. ValidatorsHandler lib (up\<lparr>Params := p\<rparr>) config = Some r' \<and>
              validators r' = validators r \<and> signingInfos r' = signingInfos r \<and>
              validatorSetLength r' = fst (params_goroutine (up\<lparr>Params := p\<rparr>) :: _ \<times> 'f Event list)"
  using assms
  by (auto simp: ValidatorsHandler_def validators_goroutine_def signing_infos_goroutine_def
      case_prod_beta Let_def split: option.splits)

lemma params_goroutine_zero:
  "Params up = Inl err \<or> Params up = Inr 0 \<Longrightarrow> fst (params_goroutine up) = 0"
  by (auto simp: params_goroutine_def)

text \<open>
  When the staking parameters give a maximum of zero, or the request for them fails and
  \<^verbatim>\<open>validatorSetLength\<close> keeps its zero value, no active sample is set and the
  counter of active validators stays at zero. Nothing else depends on the maximum:
  taking the active samples out of the trace of the same request under any other answer
  to the parameter request gives the trace of this one.
\<close>

lemma no_active_value_when_max_validators_zero:
  fixes lib :: "'f Library"
  assumes "ValidatorsHandler lib up config = Some r"
    and "Params up = Inl err \<or> Params up = Inr 0"
  shows "validatorSetLength r = 0 \<and> activeValidators r = 0 \<and>
         List.map_filter active_value (trace r) = [] \<and>
         (\<forall>p. \<exists>r'. ValidatorsHandler lib (up\<lparr>Params := p\<rparr>) config = Some r' \<and>
                  validators r' = validators r \<and>
                  filter (\<lambda>e. active_value e = None) (trace r') = trace r)"
proof -
  have z: "validatorSetLength r = 0"
    using ValidatorsHandler_Some(3)[OF assms(1)] params_goroutine_zero[OF assms(2)] by simp
  have a: "activeValidators r = 0"
    using ValidatorsHandler_Some(4)[OF assms(1)] by (simp add: z range_zero)
  have n: "List.map_filter active_value (trace r) = []"
    using trace_samples(2)[OF assms(1)] by (simp add: z range_zero)
  have "\<exists>r'. ValidatorsHandler lib (up\<lparr>Params := p\<rparr>) config = Some r' \<and>
              validators r' = validators r \<and>
              filter (\<lambda>e. active_value e = None) (trace r') = trace r" for p
  proof -
    from ValidatorsHandler_Params[OF assms(1), of p] obtain r' where
      r': "ValidatorsHandler lib (up\<lparr>Params := p\<rparr>) config = Some r'"
          "validators r' = validators r" "signingInfos r' = signingInfos r"
      by blast
    have "filter (\<lambda>e. active_value e = None) (trace r') = trace r"
      by (simp add: ValidatorsHandler_Some(5)[OF r'(1)] ValidatorsHandler_Some(5)[OF assms(1)]
          r'(2,3) z range_validators_Params
          range_without_active[of lib up config "signingInfos r" "validatorSetLength r'" 0 "validators r" 0 0])
    with r' show ?thesis by blast
  qed
  with z a n show ?thesis by blast
qed

lemma no_active_value_at_params_down:
  "\<exists>r. ValidatorsHandler test_library (params_down demo_node) test_config = Some r \<and>
       (Params (params_down demo_node) = Inl ''unavailable'' \<or> Params (params_down demo_node) = Inr 0) \<and>
       validatorSetLength r = 0 \<and> activeValidators r = 0 \<and>
       List.map_filter active_value (trace r) = [] \<and>
       (\<forall>p. \<exists>r'. ValidatorsHandler test_library (params_down demo_node\<lparr>Params := p\<rparr>) test_config = Some r' \<and>
                validators r' = validators r \<and>
                filter (\<lambda>e. active_value e = None) (trace r') = trace r)"
proof -
  from demo_run obtain r0 where "ValidatorsHandler test_library demo_node test_config = Some r0"
    by blast
  from ValidatorsHandler_Params[OF this, of "Inl ''unavailable''"] obtain r where
    r: "ValidatorsHandler test_library (params_down demo_node) test_config = Some r"
    unfolding params_down_def by blast
  have p: "Params (params_down demo_node) = Inl ''unavailable'' \<or> Params (params_down demo_node) = Inr 0"
    by (simp add: params_down_def)
  from no_active_value_when_max_validators_zero[OF r p] r p show ?thesis by blast
qed

section \<open>Ranks, active set and query loop in general\<close>

text \<open>What holds of the ranks and the active set for every request.\<close>

lemma range_ranks_all:
  assumes "\<And>v. v \<in> set vs \<Longrightarrow> signing_info_match lib up infos v \<noteq> None"
  shows "map snd (List.map_filter rank_sample (snd (range_validators lib up config infos maxv index vs a)))
           = [index + 1 ..< index + 1 + length vs]"
  using assms
proof (induction vs arbitrary: index a)
  case Nil
  show ?case by simp
next
  case (Cons v vs)
  from Cons.prems[of v] obtain si where si: "signing_info_match lib up infos v = Some si"
    by auto
  have "[index + 1 ..< index + 1 + Suc (length vs)] = (index + 1) # [Suc (index + 1) ..< index + 1 + Suc (length vs)]"
    by (rule upt_conv_Cons) simp
  then have u: "[index + 1 ..< index + 1 + length (v # vs)] = (index + 1) # [(index + 1) + 1 ..< (index + 1) + 1 + length vs]"
    by simp
  have ih: "map snd (List.map_filter rank_sample
              (snd (range_validators lib up config infos maxv (index + 1) vs
                     (fst (iteration lib up config infos maxv index v a)))))
            = [(index + 1) + 1 ..< (index + 1) + 1 + length vs]"
    by (rule Cons.IH) (simp add: Cons.prems)
  show ?case
    by (simp only: range_validators_Cons snd_conv map_filter_append map_append iteration_ranks si
        option.case list.map snd_conv ih u append_Cons append_Nil)
qed

lemma ranks_complete_when_all_matched:
  assumes "ValidatorsHandler lib up config = Some r"
    and "\<And>v. v \<in> set (validators r) \<Longrightarrow> signing_info_match lib up (signingInfos r) v \<noteq> None"
  shows "map snd (emitted_ranks r) = [1 ..< 1 + length (validators r)]"
  using range_ranks_all[of "validators r" lib up "signingInfos r" config "validatorSetLength r" 0 0]
    assms(2)
  by (simp add: emitted_ranks_def trace_samples(1)[OF assms(1)])

lemma active_cap:
  assumes "ValidatorsHandler lib up config = Some r"
  shows "activeValidators r = length (filter (\<lambda>n. n = 1) (List.map_filter active_value (trace r)))"
    and "length (filter (\<lambda>n. n = 1) (List.map_filter active_value (trace r)))
           \<le> unat (validatorSetLength r)"
proof -
  let ?rv = "range_validators lib up config (signingInfos r) (validatorSetLength r) 0 (validators r) 0"
  have "fst ?rv = sum_list (List.map_filter active_value (snd ?rv))"
    using range_count[of lib up config "signingInfos r" "validatorSetLength r" 0 "validators r" 0]
    by simp
  also have "\<dots> = length (filter (\<lambda>n. n = 1) (List.map_filter active_value (snd ?rv)))"
    by (rule sum_list_bits) (rule range_bits)
  finally have c: "fst ?rv = length (filter (\<lambda>n. n = 1) (List.map_filter active_value (trace r)))"
    by (simp add: trace_samples(2)[OF assms])
  then show "activeValidators r = length (filter (\<lambda>n. n = 1) (List.map_filter active_value (trace r)))"
    by (simp add: ValidatorsHandler_Some(4)[OF assms])
  have "fst ?rv \<le> unat (validatorSetLength r)"
    by (rule range_cap) simp
  with c show "length (filter (\<lambda>n. n = 1) (List.map_filter active_value (trace r)))
           \<le> unat (validatorSetLength r)"
    by simp
qed

lemma jailed_never_active:
  assumes "Jailed v"
  shows "fst (iteration lib up config infos maxv index v a) = a"
    and "1 \<notin> set (List.map_filter active_value (snd (iteration lib up config infos maxv index v a)))"
  using assms
  by (auto simp: iteration_count[of lib up config infos maxv index v a] iteration_active
      split: option.splits)

text \<open>The loop of the validator query at a failing page and at a page with validators.\<close>

lemma query_validators_error:
  assumes "stakingClient_Validators lim (of_nat (length vs)) = Inl err"
  shows "query_validators stakingClient_Validators lim vs tr =
           Some (vs, tr @ [Query_Validators lim (of_nat (length vs)),
                           Log ErrorLevel ''Could not get validators'' []], False)"
  by (subst query_validators.simps) (simp add: assms)

lemma query_validators_page:
  assumes "stakingClient_Validators lim (of_nat (length vs)) = Inr (Some page)" "page \<noteq> []"
  shows "query_validators stakingClient_Validators lim vs tr =
           query_validators stakingClient_Validators lim (vs @ page)
             (tr @ [Query_Validators lim (of_nat (length vs))])"
  by (subst query_validators.simps) (simp add: assms)

lemma query_validators_end:
  assumes "stakingClient_Validators lim (of_nat (length vs)) = Inr None
           \<or> stakingClient_Validators lim (of_nat (length vs)) = Inr (Some [])"
  shows "query_validators stakingClient_Validators lim vs tr =
           Some (vs, tr @ [Query_Validators lim (of_nat (length vs))], True)"
  using assms by (subst query_validators.simps) auto

section \<open>The order of tied validators\<close>





section \<open>The bulk signing-info request\<close>

text \<open>
  Claim C7, as amended. The bulk signing infos are fetched with one request, for the
  first \<^verbatim>\<open>config.Limit\<close> records from offset zero, and no further page is asked
  for: the bulk set is the content of that one response, or empty when the request
  fails.
\<close>

theorem signing_infos_one_request:
  fixes lib :: "'f Library"
  assumes "ValidatorsHandler lib up config = Some r"
  shows "bulk_queries r = [(Limit config, 0)] \<and>
         signingInfos r = (case SigningInfos up (Limit config) 0 of Inl err \<Rightarrow> [] | Inr info \<Rightarrow> info)"
  using assms
  by (auto simp: ValidatorsHandler_def bulk_queries_def signing_infos_goroutine_def
      case_prod_beta Let_def split: option.splits sum.splits)

theorem signing_infos_one_request_witness:
  "\<exists>r. ValidatorsHandler test_library demo_node test_config = Some r \<and>
       bulk_queries r = [(Limit test_config, 0)] \<and>
       signingInfos r = (case SigningInfos demo_node (Limit test_config) 0 of
                           Inl err \<Rightarrow> [] | Inr info \<Rightarrow> info)"
proof -
  from demo_run obtain r where r: "ValidatorsHandler test_library demo_node test_config = Some r"
    by blast
  from signing_infos_one_request[OF r] r show ?thesis by blast
qed

text \<open>
  Claim C7 as stated fails: the node holds three signing infos, two to a page; the
  handler asks for the first page only, and the record on the second page is not in
  the bulk set.
\<close>

theorem signing_infos_not_paginated:
  "map_option bulk_queries (ValidatorsHandler test_library demo_node test_config) = Some [(2, 0)] \<and>
   map_option signingInfos (ValidatorsHandler test_library demo_node test_config)
     = Some [info_low, info_high] \<and>
   SigningInfos demo_node 2 2 = Inr [info_jailed]"
  by code_simp

section \<open>The delegator endpoint\<close>

text \<open>
  Claim C10. When the \<^verbatim>\<open>validator_address\<close> parameter is not a valid bech32 validator
  address, the delegator handler logs the error and returns: no gauge is registered,
  no query is sent upstream and nothing is written to the response.
\<close>

theorem delegator_invalid_address:
  assumes "ValAddressFromBech32 lib validatorAddress = Inl err"
  shows "DelegatorHandler lib up config validatorAddress =
           \<lparr>registered = [],
            delegator_trace = [Log ErrorLevel ''Could not get validator address'' validatorAddress],
            body = None\<rparr>"
  using assms by (simp add: DelegatorHandler_def)

theorem delegator_invalid_address_witness:
  "ValAddressFromBech32 test_library ''cosmos1notavalidator'' = Inl ''decoding bech32 failed'' \<and>
   DelegatorHandler test_library demo_node test_config ''cosmos1notavalidator'' =
     \<lparr>registered = [],
      delegator_trace = [Log ErrorLevel ''Could not get validator address'' ''cosmos1notavalidator''],
      body = None\<rparr>"
proof -
  have h: "ValAddressFromBech32 test_library ''cosmos1notavalidator'' = Inl ''decoding bech32 failed''"
    by (simp add: test_library_def)
  show ?thesis by (rule conjI[OF h delegator_invalid_address[OF h]])
qed

section \<open>Runs that show a defect\<close>

text \<open>
  Claim C3. The claim asks for a rank for every validator, also for one whose single
  lookup fails. The handler leaves the iteration at the \<^verbatim>\<open>continue\<close> of the failed
  lookup, before the rank is set. Here four validators are ranked; the third, which has
  never been bonded and has no signing info, gets no rank, and the ranks set are 1, 2
  and 4.
\<close>

theorem rank_missing_when_lookup_fails:
  "map_option validators (ValidatorsHandler test_library demo_node test_config)
     = Some [val_high, val_low, val_new, val_jailed] \<and>
   map_option emitted_ranks (ValidatorsHandler test_library demo_node test_config)
     = Some [(''high'', 1), (''low'', 2), (''jailed'', 4)]"
  by code_simp

text \<open>
  Claim C4. The claim asks for an active sample of value 0 for every jailed validator.
  With the single lookup out of service, the jailed validator, which the first page of
  signing infos does not hold, leaves its iteration at the same \<^verbatim>\<open>continue\<close> and
  gets no active sample at all.
\<close>

theorem jailed_without_active_when_lookup_fails:
  "map_option validators (ValidatorsHandler test_library (lookup_down demo_node) test_config)
     = Some [val_high, val_low, val_new, val_jailed] \<and>
   Jailed val_jailed \<and>
   map_option validatorSetLength (ValidatorsHandler test_library (lookup_down demo_node) test_config)
     = Some 1 \<and>
   map_option emitted_active (ValidatorsHandler test_library (lookup_down demo_node) test_config)
     = Some [(''high'', ''B2'', 1), (''low'', ''A1'', 0)]"
  by code_simp

text \<open>
  Claim C5. The claim asks, with a maximum of zero, for every field but the active
  value. Here the parameter request fails: \<^verbatim>\<open>validatorSetLength\<close> stays zero and no
  active sample is set, as claimed; but the validator whose single lookup fails leaves
  its iteration at the same \<^verbatim>\<open>continue\<close>, and of the four validators the third has
  no rank.
\<close>

theorem rank_missing_when_max_validators_zero:
  "Params (params_down demo_node) = Inl ''unavailable'' \<and>
   map_option validatorSetLength (ValidatorsHandler test_library (params_down demo_node) test_config)
     = Some 0 \<and>
   map_option emitted_active (ValidatorsHandler test_library (params_down demo_node) test_config)
     = Some [] \<and>
   map_option validators (ValidatorsHandler test_library (params_down demo_node) test_config)
     = Some [val_high, val_low, val_new, val_jailed] \<and>
   map_option emitted_ranks (ValidatorsHandler test_library (params_down demo_node) test_config)
     = Some [(''high'', 1), (''low'', 2), (''jailed'', 4)]"
  by code_simp

text \<open>
  Claim C8. The claim asks for a sorted list also when a page fails. The error branch
  returns from the goroutine, and the sort that follows the loop does not run: here the
  second request fails, the two validators of the first page are ranked in the order
  the node sent them, and the one with fewer shares gets rank 1.
\<close>

theorem partial_list_not_sorted:
  "map_option validators_trace
     (ValidatorsHandler test_library (failing_from 2 (node [val_low, val_high] [info_low, info_high] 1)) test_config)
     = Some [Log DebugLevel ''Started querying validators'' [], Query_Validators 2 0,
             Query_Validators 2 2, Log ErrorLevel ''Could not get validators'' []] \<and>
   map_option validators
     (ValidatorsHandler test_library (failing_from 2 (node [val_low, val_high] [info_low, info_high] 1)) test_config)
     = Some [val_low, val_high] \<and>
   less_validators val_high val_low \<and>
   map_option emitted_ranks
     (ValidatorsHandler test_library (failing_from 2 (node [val_low, val_high] [info_low, info_high] 1)) test_config)
     = Some [(''low'', 1), (''high'', 2)]"
  by code_simp

section \<open>A validator whose consensus address cannot be derived\<close>

lemma active_step_sample:
  "List.map_filter active_sample (snd (active_step maxv v pk a)) =
     (if maxv = 0 then []
      else [(OperatorAddress v, ToUpper (EncodeToString pk), if Jailed v \<or> a = unat maxv then 0 else 1)])"
  by (simp add: active_step_def Let_def)

lemma iteration_head:
  "take (length (emit_fields lib config v)) (snd (iteration lib up config infos maxv index v a))
     = emit_fields lib config v"
proof (cases "signing_info_match lib up infos v")
  case None
  show ?thesis by (simp add: iteration_continue[OF None])
next
  case (Some si)
  show ?thesis by (simp add: iteration_found[OF Some])
qed

lemma emit_fields_status:
  "Set_status (OperatorAddress v) (Moniker v) (BondStatus_code (Status v)) \<in> set (emit_fields lib config v)"
  "Set_jailed (OperatorAddress v) (Moniker v) (if Jailed v then 1 else 0) \<in> set (emit_fields lib config v)"
  by (simp_all add: emit_fields_def)

lemma emit_fields_no_key:
  assumes "snd (GetConsAddr v) = Some err"
  shows "emit_fields lib config v =
           emit_fields lib config (v\<lparr>GetConsAddr := (fst (GetConsAddr v), None)\<rparr>)
           @ [Log ErrorLevel ''Could not get validator pubkey'' (OperatorAddress v)]"
  using assms by (simp add: emit_fields_def scaled_def split: sum.splits option.splits)

lemma iteration_found_samples:
  fixes lib :: "'f Library"
  assumes "signing_info_match lib up infos v = Some si"
  shows "List.map_filter rank_sample (snd (iteration lib up config infos maxv index v a))
           = [(OperatorAddress v, index + 1)]"
    and "List.map_filter missed_blocks_sample (snd (iteration lib up config infos maxv index v a))
           = (if Status v = Bonded then [(OperatorAddress v, sint (MissedBlocksCounter si))] else [])"
    and "List.map_filter active_sample (snd (iteration lib up config infos maxv index v a))
           = (if maxv = 0 then []
              else [(OperatorAddress v, ToUpper (EncodeToString (fst (GetConsAddr v))),
                     if Jailed v \<or> a = unat maxv then 0 else 1)])"
proof -
  show "List.map_filter rank_sample (snd (iteration lib up config infos maxv index v a))
           = [(OperatorAddress v, index + 1)]"
    by (simp add: iteration_ranks assms)
  show "List.map_filter missed_blocks_sample (snd (iteration lib up config infos maxv index v a))
           = (if Status v = Bonded then [(OperatorAddress v, sint (MissedBlocksCounter si))] else [])"
    by (simp add: iteration_missed_blocks spec_missed_blocks_def assms)
  show "List.map_filter active_sample (snd (iteration lib up config infos maxv index v a))
           = (if maxv = 0 then []
              else [(OperatorAddress v, ToUpper (EncodeToString (fst (GetConsAddr v))),
                     if Jailed v \<or> a = unat maxv then 0 else 1)])"
    by (simp add: iteration_found[OF assms] map_filter_append active_step_sample
        map_filter_none[of _ active_sample] emit_fields_events join_events)
qed

text \<open>
  What the failure of the derivation changes in the first part of the loop body, and
  that this part is set for every validator of the pass, whatever happens to the
  validator afterwards.
\<close>

lemma emit_fields_parsed:
  "ParseFloat lib (Dec_String lib (Rate v)) = Inr rate \<Longrightarrow>
     Set_commission (OperatorAddress v) (Moniker v) rate \<in> set (emit_fields lib config v)"
  "ParseFloat lib (Int_String lib (Tokens v)) = Inr x \<Longrightarrow>
     Set_tokens (OperatorAddress v) (Moniker v) (Denom config)
       (float_div lib x (DenomCoefficient config)) \<in> set (emit_fields lib config v)"
  "ParseFloat lib (Dec_String lib (DelegatorShares v)) = Inr y \<Longrightarrow>
     Set_delegator_shares (OperatorAddress v) (Moniker v) (Denom config)
       (float_div lib y (DenomCoefficient config)) \<in> set (emit_fields lib config v)"
  "ParseFloat lib (Int_String lib (MinSelfDelegation v)) = Inr z \<Longrightarrow>
     Set_min_self_delegation (OperatorAddress v) (Moniker v) (Denom config)
       (float_div lib z (DenomCoefficient config)) \<in> set (emit_fields lib config v)"
  by (simp_all add: emit_fields_def scaled_def)

lemma emit_fields_logged:
  "snd (GetConsAddr v) = Some err \<Longrightarrow>
     Log ErrorLevel ''Could not get validator pubkey'' (OperatorAddress v) \<in> set (emit_fields lib config v)"
  by (simp add: emit_fields_def)

lemma iteration_fields:
  "set (emit_fields lib config v) \<subseteq> set (snd (iteration lib up config infos maxv index v a))"
proof -
  have "set (take (length (emit_fields lib config v)) (snd (iteration lib up config infos maxv index v a)))
          \<subseteq> set (snd (iteration lib up config infos maxv index v a))"
    by (rule set_take_subset)
  then show ?thesis by (simp only: iteration_head)
qed

lemma range_fields:
  assumes "v \<in> set vs"
  shows "set (emit_fields lib config v) \<subseteq> set (snd (range_validators lib up config infos maxv index vs a))"
  using assms
proof (induction vs arbitrary: index a)
  case Nil
  then show ?case by simp
next
  case (Cons w vs)
  show ?case
  proof (cases "v = w")
    case True
    with iteration_fields[of lib config w up infos maxv index a] show ?thesis
      by (simp only: range_validators_Cons snd_conv set_append) blast
  next
    case False
    with Cons.prems have "v \<in> set vs" by simp
    from Cons.IH[OF this, of "index + 1" "fst (iteration lib up config infos maxv index w a)"]
    show ?thesis
      by (simp only: range_validators_Cons snd_conv set_append) blast
  qed
qed

lemma fields_of_every_validator:
  assumes "ValidatorsHandler lib up config = Some r" and "v \<in> set (validators r)"
  shows "set (emit_fields lib config v) \<subseteq> set (trace r)"
  using range_fields[OF assms(2), of lib config up "signingInfos r" "validatorSetLength r" 0 0]
  by (auto simp: ValidatorsHandler_Some(5)[OF assms(1)])

text \<open>
  Claim C9. The claim asks for the rank of a validator whose consensus address cannot
  be derived. Here the public key of the one validator does not unpack. The two errors
  are logged and commission, status, jailed flag and the three amounts are set; the
  handler then goes on with the \<^verbatim>\<open>nil\<close> address, sends the single lookup for the
  empty address, which the node answers with an error, and leaves the iteration at the
  \<^verbatim>\<open>continue\<close>: no rank is set.
\<close>

theorem rank_missing_when_consensus_address_fails:
  "snd (GetConsAddr val_nokey) = Some ''expecting cryptotypes.PubKey'' \<and>
   map_option validators (ValidatorsHandler test_library (node [val_nokey] [] 1) test_config)
     = Some [val_nokey] \<and>
   map_option trace (ValidatorsHandler test_library (node [val_nokey] [] 1) test_config)
     = Some [Log InfoLevel ''Validators info'' [],
             Set_commission ''nokey'' ''nokey'' ''dec'',
             Set_status ''nokey'' ''nokey'' 3,
             Set_jailed ''nokey'' ''nokey'' 0,
             Set_tokens ''nokey'' ''nokey'' ''atom'' ''int/1000000'',
             Set_delegator_shares ''nokey'' ''nokey'' ''atom'' ''dec/1000000'',
             Set_min_self_delegation ''nokey'' ''nokey'' ''atom'' ''int/1000000'',
             Log ErrorLevel ''Could not get unpack validator inferfaces'' ''nokey'',
             Log ErrorLevel ''Could not get validator pubkey'' ''nokey'',
             Query_SigningInfo [],
             Log DebugLevel ''Could not get signing info for validator'' ''nokey'',
             Log InfoLevel ''Active validators'' [],
             Log InfoLevel ''Request processed'' []] \<and>
   map_option emitted_ranks (ValidatorsHandler test_library (node [val_nokey] [] 1) test_config)
     = Some []"
  by code_simp

end
